theory Spec2Isabelle
  imports Main
begin

section \<open>Values crossing the wire\<close>

text \<open>
  Event payloads and HTTP bodies are JSON values, as the parser left them. A number is a
  double; it is represented by the text JavaScript prints for it (\<open>String(n)\<close>, which
  \<open>JSON.stringify\<close> prints too): \<open>123\<close>, \<open>0.5\<close>, \<open>-7\<close>, \<open>1e+21\<close>. Two numbers
  are the same exactly when they print the same, and zero of either sign prints \<open>0\<close>. A
  value that is absent (JavaScript's \<open>undefined\<close>) is \<open>None\<close> of \<open>json option\<close>.
  An object is the list of its properties, each key once, as a parsed body has them.
\<close>

datatype json =
    JNull
  | JBool bool
  | JNum string
  | JStr string
  | JArr "json list"
  | JObj "(string \<times> json) list"

text \<open>
  JavaScript truthiness, as \<open>!x\<close> and \<open>x || y\<close> test it: the falsy numbers are zero
  and \<open>NaN\<close> (which no JSON text gives).
\<close>

fun truthy :: "json option \<Rightarrow> bool" where
  "truthy None = False"
| "truthy (Some JNull) = False"
| "truthy (Some (JBool b)) = b"
| "truthy (Some (JNum n)) = (n \<noteq> ''0'' \<and> n \<noteq> ''NaN'')"
| "truthy (Some (JStr s)) = (s \<noteq> [])"
| "truthy (Some (JArr xs)) = True"
| "truthy (Some (JObj kvs)) = True"

text \<open>
  Reading a property: \<open>req.body.gameId\<close>, \<open>comment.id\<close>. Only the names
  \<open>gameId\<close>, \<open>comment\<close>, \<open>commentId\<close>, \<open>message\<close>, \<open>id\<close> and \<open>text\<close> are
  read, which no string, number, boolean or array has, so the read gives \<open>undefined\<close>
  there. Every read in the source is on a parsed body or behind a truthiness test, so the
  read on \<open>null\<close> or \<open>undefined\<close> (a TypeError in JavaScript) is never evaluated.
\<close>

fun get_prop :: "json option \<Rightarrow> string \<Rightarrow> json option" where
  "get_prop (Some (JObj kvs)) k = map_of kvs k"
| "get_prop v k = None"

text \<open>
  An object literal on its way out (\<open>res.json\<close>, an emitted packet): a property whose
  value is \<open>undefined\<close> is not serialised.
\<close>

fun js_object :: "(string \<times> json option) list \<Rightarrow> (string \<times> json) list" where
  "js_object [] = []"
| "js_object ((k, None) # kvs) = js_object kvs"
| "js_object ((k, Some v) # kvs) = (k, v) # js_object kvs"

subsection \<open>Template literals\<close>

text \<open>
  The size of a \<open>Set\<close> is the one number the server computes itself: an integer below
  \<open>2^53\<close>, which JavaScript prints in plain decimal digits.
\<close>

definition digit_char :: "nat \<Rightarrow> char" where
  "digit_char d =
     (if d = 0 then CHR ''0'' else if d = 1 then CHR ''1'' else if d = 2 then CHR ''2''
      else if d = 3 then CHR ''3'' else if d = 4 then CHR ''4'' else if d = 5 then CHR ''5''
      else if d = 6 then CHR ''6'' else if d = 7 then CHR ''7'' else if d = 8 then CHR ''8''
      else CHR ''9'')"

function nat_digits :: "nat \<Rightarrow> string" where
  "nat_digits n =
     (if n < 10 then [digit_char n] else nat_digits (n div 10) @ [digit_char (n mod 10)])"
  by pat_completeness auto
termination
  by (relation "measure (\<lambda>n. n)") auto

declare nat_digits.simps [simp del]

fun join_comma :: "string list \<Rightarrow> string" where
  "join_comma [] = []"
| "join_comma [x] = x"
| "join_comma (x # y # ys) = x @ '','' @ join_comma (y # ys)"

text \<open>
  \<open>String(v)\<close>, which a template literal \<open>`${v}`\<close> applies: an array joins its
  elements with commas, \<open>null\<close> elements printing as nothing; an object prints as
  \<open>[object Object]\<close>.
\<close>

fun js_String :: "json \<Rightarrow> string" where
  "js_String JNull = ''null''"
| "js_String (JBool b) = (if b then ''true'' else ''false'')"
| "js_String (JNum n) = n"
| "js_String (JStr s) = s"
| "js_String (JArr xs) =
     join_comma (map (\<lambda>x. if x = JNull then [] else js_String x) xs)"
| "js_String (JObj kvs) = ''[object Object]''"

definition template :: "json option \<Rightarrow> string" where
  "template v = (case v of None \<Rightarrow> ''undefined'' | Some x \<Rightarrow> js_String x)"

section \<open>State of the server\<close>

type_synonym sid = string
type_synonym room = string
type_synonym date = string

text \<open>A packet handed to the transport for one connection: event name and data.\<close>

type_synonym packet = "string \<times> json option"

datatype level = LOG | WARN | ERROR

datatype log_line =
    Console level string
  | ConsoleWith level string "json option"

text \<open>\<open>clientInfo\<close>, the value of \<open>connectedClients\<close> at a socket id.\<close>

record client_info =
  client_id :: sid
  connectedAt :: date
  ip :: string
  rooms :: "room set"
  userId :: "json option"

text \<open>
  The process state: the \<open>connectedClients\<close> map of the source, the membership index
  \<open>io.sockets.adapter.rooms\<close> of the transport, the packets the transport was given for
  each connection (oldest first), and the console output.
\<close>

record server =
  connectedClients :: "sid \<rightharpoonup> client_info"
  adapter_rooms :: "room \<rightharpoonup> sid set"
  delivered :: "sid \<Rightarrow> packet list"
  console :: "log_line list"

definition init :: server where
  "init = \<lparr> connectedClients = Map.empty, adapter_rooms = Map.empty,
            delivered = (\<lambda>c. []), console = [] \<rparr>"

text \<open>The members of a channel; a channel with no entry has none.\<close>

definition members :: "server \<Rightarrow> room \<Rightarrow> sid set" where
  "members s r = (case adapter_rooms s r of None \<Rightarrow> {} | Some ms \<Rightarrow> ms)"

section \<open>The transport layer\<close>

text \<open>
  Modelled from the spec: the transport layer (the Socket.IO library) is not part of the
  repository's sources. Its four operations that the handlers call are taken from the
  spec's description of the channel-membership index: joining adds the connection to the
  channel's member set, creating the channel; leaving removes it, and a channel whose
  last member left is not retained; a transport-level disconnect removes the connection
  from every channel before the \<open>disconnect\<close> handler runs; an emit to a channel hands
  the packet to every current member, once each. What the spec does not describe of the
  library (the room every socket has under its own id, the recovery of the state of a
  connection that comes back) is not in the model: a connection starts in no channel.
\<close>

definition socket_join :: "sid \<Rightarrow> room \<Rightarrow> server \<Rightarrow> server" where
  "socket_join c r s = s\<lparr>adapter_rooms := (adapter_rooms s)(r \<mapsto> insert c (members s r))\<rparr>"

definition room_without :: "sid \<Rightarrow> sid set option \<Rightarrow> sid set option" where
  "room_without c m =
     (case m of None \<Rightarrow> None
      | Some ms \<Rightarrow> if ms - {c} = {} then None else Some (ms - {c}))"

definition socket_leave :: "sid \<Rightarrow> room \<Rightarrow> server \<Rightarrow> server" where
  "socket_leave c r s =
     s\<lparr>adapter_rooms := (adapter_rooms s)(r := room_without c (adapter_rooms s r))\<rparr>"

definition socket_leaveAll :: "sid \<Rightarrow> server \<Rightarrow> server" where
  "socket_leaveAll c s = s\<lparr>adapter_rooms := (\<lambda>r. room_without c (adapter_rooms s r))\<rparr>"

definition socket_emit :: "sid \<Rightarrow> string \<Rightarrow> json option \<Rightarrow> server \<Rightarrow> server" where
  "socket_emit c ev d s = s\<lparr>delivered := (delivered s)(c := delivered s c @ [(ev, d)])\<rparr>"

definition io_to_emit :: "room \<Rightarrow> string \<Rightarrow> json option \<Rightarrow> server \<Rightarrow> server" where
  "io_to_emit r ev d s =
     s\<lparr>delivered := (\<lambda>c. if c \<in> members s r then delivered s c @ [(ev, d)] else delivered s c)\<rparr>"

section \<open>Helpers of the source\<close>

definition getGameRoomName :: "json option \<Rightarrow> room" where
  "getGameRoomName gameId = ''game_'' @ template gameId"

definition getRoomSize :: "server \<Rightarrow> room \<Rightarrow> nat" where
  "getRoomSize s roomName =
     (case adapter_rooms s roomName of None \<Rightarrow> 0 | Some room \<Rightarrow> card room)"

definition console_log :: "string \<Rightarrow> server \<Rightarrow> server" where
  "console_log msg s = s\<lparr>console := console s @ [Console LOG msg]\<rparr>"

definition console_warn :: "string \<Rightarrow> server \<Rightarrow> server" where
  "console_warn msg s = s\<lparr>console := console s @ [Console WARN msg]\<rparr>"

definition console_log_with :: "level \<Rightarrow> string \<Rightarrow> json option \<Rightarrow> server \<Rightarrow> server" where
  "console_log_with l msg v s = s\<lparr>console := console s @ [ConsoleWith l msg v]\<rparr>"

text \<open>The arrow (U+2192) of two log lines, as its UTF-8 bytes.\<close>

definition arrow :: string where
  "arrow = [char_of (226::nat), char_of (134::nat), char_of (146::nat)]"

definition emitToGame :: "json option \<Rightarrow> string \<Rightarrow> json option \<Rightarrow> server \<Rightarrow> nat \<times> server" where
  "emitToGame gameId eventName data s =
     (let roomName = getGameRoomName gameId;
          clientCount = getRoomSize s roomName;
          s1 = io_to_emit roomName eventName data s;
          s2 = console_log (''[Emit] '' @ eventName @ '' to '' @ roomName @ '' - ''
                 @ nat_digits clientCount @ '' clients'') s1
      in (clientCount, s2))"

text \<open>
  A handler mutates the \<open>clientInfo\<close> object of its own socket, which is the object
  stored in \<open>connectedClients\<close> under the socket's id.
\<close>

definition modify_client :: "sid \<Rightarrow> (client_info \<Rightarrow> client_info) \<Rightarrow> server \<Rightarrow> server" where
  "modify_client c f s =
     (case connectedClients s c of
        None \<Rightarrow> s
      | Some ci \<Rightarrow> s\<lparr>connectedClients := (connectedClients s)(c \<mapsto> f ci)\<rparr>)"

definition client_rooms :: "server \<Rightarrow> sid \<Rightarrow> room set" where
  "client_rooms s c = (case connectedClients s c of None \<Rightarrow> {} | Some ci \<Rightarrow> rooms ci)"

section \<open>Socket event handlers of the full server\<close>

definition on_connection :: "sid \<Rightarrow> string \<Rightarrow> date \<Rightarrow> server \<Rightarrow> server" where
  "on_connection c addr now s =
     (let clientInfo = \<lparr> client_id = c, connectedAt = now, ip = addr, rooms = {},
                         userId = None \<rparr>;
          s1 = s\<lparr>connectedClients := (connectedClients s)(c \<mapsto> clientInfo)\<rparr>
      in console_log (''[Socket.IO] Client connected: '' @ c @ '' from '' @ addr) s1)"

definition on_joinRoom :: "sid \<Rightarrow> room \<Rightarrow> server \<Rightarrow> server" where
  "on_joinRoom c r s =
     (let s1 = socket_join c r s;
          s2 = modify_client c (\<lambda>ci. ci\<lparr>rooms := insert r (rooms ci)\<rparr>) s1;
          roomSize = getRoomSize s2 r;
          s3 = console_log (''[Socket.IO] '' @ c @ '' joined room: '' @ r @ '' (''
                 @ nat_digits roomSize @ '' clients)'') s2
      in socket_emit c ''message''
           (Some (JObj [(''room'', JStr r),
                        (''message'', JObj [(''type'', JStr ''subscribed''),
                                            (''status'', JStr ''success''),
                                            (''room'', JStr r)])])) s3)"

definition on_leaveRoom :: "sid \<Rightarrow> room \<Rightarrow> server \<Rightarrow> server" where
  "on_leaveRoom c r s =
     (let s1 = socket_leave c r s;
          s2 = modify_client c (\<lambda>ci. ci\<lparr>rooms := rooms ci - {r}\<rparr>) s1;
          roomSize = getRoomSize s2 r
      in console_log (''[Socket.IO] '' @ c @ '' left room: '' @ r @ '' (''
           @ nat_digits roomSize @ '' clients remaining)'') s2)"

definition on_register :: "sid \<Rightarrow> json option \<Rightarrow> server \<Rightarrow> server" where
  "on_register c uid s =
     (let userRoom = ''user_'' @ template uid;
          s1 = socket_join c userRoom s;
          s2 = modify_client c (\<lambda>ci. ci\<lparr>userId := uid\<rparr>) s1;
          s3 = modify_client c (\<lambda>ci. ci\<lparr>rooms := insert userRoom (rooms ci)\<rparr>) s2
      in console_log (''[Socket.IO] User '' @ template uid @ '' registered with socket '' @ c) s3)"

definition on_broadcast_players_updated :: "sid \<Rightarrow> json option \<Rightarrow> server \<Rightarrow> server" where
  "on_broadcast_players_updated c gameId s =
     (if \<not> truthy gameId then
        console_warn ''[Socket.IO] broadcast_players_updated: missing gameId'' s
      else
        let roomName = getGameRoomName gameId;
            recipientCount = getRoomSize s roomName;
            s1 = io_to_emit roomName ''game_players_updated''
                   (Some (JObj (js_object [(''gameId'', gameId)]))) s
        in console_log (''[Socket.IO] broadcast_players_updated '' @ arrow @ '' '' @ roomName
             @ '' ('' @ nat_digits recipientCount @ '' clients)'') s1)"

definition on_broadcast_comment_new ::
  "sid \<Rightarrow> json option \<Rightarrow> json option \<Rightarrow> server \<Rightarrow> server" where
  "on_broadcast_comment_new c gameId comment s =
     (if \<not> truthy gameId \<or> \<not> truthy comment then
        console_warn ''[Socket.IO] broadcast_comment_new: missing gameId or comment'' s
      else
        let roomName = getGameRoomName gameId in
        if roomName \<notin> client_rooms s c then
          console_warn (''[Socket.IO] Socket '' @ c @ '' not in room '' @ roomName
            @ '', ignoring broadcast'') s
        else
          let recipientCount = getRoomSize s roomName;
              s1 = io_to_emit roomName ''game_comment_new'' comment s
          in console_log (''[Socket.IO] broadcast_comment_new '' @ arrow @ '' '' @ roomName
               @ '' ('' @ nat_digits recipientCount @ '' clients)'') s1)"

definition on_message :: "sid \<Rightarrow> room \<Rightarrow> json option \<Rightarrow> server \<Rightarrow> server" where
  "on_message c r message s =
     (let s1 = console_log (''[Socket.IO] Message from '' @ c @ '' to room '' @ r) s
      in io_to_emit r ''message''
           (Some (JObj (js_object [(''room'', Some (JStr r)), (''message'', message),
                                   (''from'', Some (JStr c))]))) s1)"

definition on_privateMessage :: "sid \<Rightarrow> room \<Rightarrow> json option \<Rightarrow> server \<Rightarrow> server" where
  "on_privateMessage c to message s =
     (let s1 = console_log (''[Socket.IO] Private message from '' @ c @ '' to '' @ to) s
      in io_to_emit to ''privateMessage''
           (Some (JObj (js_object [(''message'', message), (''from'', Some (JStr c))]))) s1)"

definition on_disconnect :: "sid \<Rightarrow> string \<Rightarrow> json option \<Rightarrow> server \<Rightarrow> server" where
  "on_disconnect c reason details s =
     (let s1 = console_log (''[Socket.IO] Client disconnected: '' @ c) s;
          s2 = console_log (''[Socket.IO] Reason: '' @ reason) s1;
          s3 = (if truthy details
                then console_log_with LOG ''[Socket.IO] Details:'' details s2 else s2)
      in s3\<lparr>connectedClients := (connectedClients s3)(c := None)\<rparr>)"

definition on_error :: "sid \<Rightarrow> json option \<Rightarrow> server \<Rightarrow> server" where
  "on_error c err s = console_log_with ERROR (''[Socket.IO] Error from '' @ c @ '':'') err s"


section \<open>HTTP endpoints\<close>

text \<open>
  A handler takes \<open>req.body\<close> as the JSON parser left it (an object, or an array,
  which has none of the fields read) and the reading of the clock that
  \<open>new Date().toISOString()\<close> gives, and returns the response with the new state.
  The \<open>/health\<close> endpoint, which reads the uptime of the process, is left out.
\<close>

record response =
  status :: nat
  body :: json

definition missing_required :: "string list \<Rightarrow> response" where
  "missing_required names =
     \<lparr> status = 400,
       body = JObj [(''error'', JStr ''Missing required fields''),
                    (''required'', JArr (map JStr names))] \<rparr>"

definition bad_request :: "string \<Rightarrow> response" where
  "bad_request msg = \<lparr> status = 400, body = JObj [(''error'', JStr msg)] \<rparr>"

definition ok_json :: "(string \<times> json option) list \<Rightarrow> response" where
  "ok_json kvs = \<lparr> status = 200, body = JObj (js_object kvs) \<rparr>"

definition get_room :: "string \<Rightarrow> server \<Rightarrow> response \<times> server" where
  "get_room roomName s =
     (let size = getRoomSize s roomName
      in (ok_json [(''room'', Some (JStr roomName)), (''clients'', Some (JNum (nat_digits size))),
                   (''exists'', Some (JBool (size > 0)))], s))"

definition post_game_comment_new :: "date \<Rightarrow> json \<Rightarrow> server \<Rightarrow> response \<times> server" where
  "post_game_comment_new now req_body s =
     (let gameId = get_prop (Some req_body) ''gameId'';
          comment = get_prop (Some req_body) ''comment''
      in if \<not> truthy gameId \<or> \<not> truthy comment then
           (missing_required [''gameId'', ''comment''], s)
         else if \<not> truthy (get_prop comment ''id'') \<or> \<not> truthy (get_prop comment ''text'') then
           (bad_request ''Comment must have id and text fields'', s)
         else
           let roomName = getGameRoomName gameId;
               (recipientCount, s1) = emitToGame gameId ''game_comment_new'' comment s
           in (ok_json [(''success'', Some (JBool True)), (''gameId'', gameId),
                        (''room'', Some (JStr roomName)),
                        (''recipients'', Some (JNum (nat_digits recipientCount))),
                        (''event'', Some (JStr ''game_comment_new'')),
                        (''timestamp'', Some (JStr now))], s1))"

definition post_game_comment_edit :: "date \<Rightarrow> json \<Rightarrow> server \<Rightarrow> response \<times> server" where
  "post_game_comment_edit now req_body s =
     (let gameId = get_prop (Some req_body) ''gameId'';
          comment = get_prop (Some req_body) ''comment''
      in if \<not> truthy gameId \<or> \<not> truthy comment then
           (missing_required [''gameId'', ''comment''], s)
         else if \<not> truthy (get_prop comment ''id'') then
           (bad_request ''Comment must have id field'', s)
         else
           let roomName = getGameRoomName gameId;
               (recipientCount, s1) = emitToGame gameId ''game_comment_edit'' comment s
           in (ok_json [(''success'', Some (JBool True)), (''gameId'', gameId),
                        (''room'', Some (JStr roomName)),
                        (''recipients'', Some (JNum (nat_digits recipientCount))),
                        (''event'', Some (JStr ''game_comment_edit'')),
                        (''timestamp'', Some (JStr now))], s1))"

definition post_game_comment_delete :: "date \<Rightarrow> json \<Rightarrow> server \<Rightarrow> response \<times> server" where
  "post_game_comment_delete now req_body s =
     (let gameId = get_prop (Some req_body) ''gameId'';
          commentId = get_prop (Some req_body) ''commentId''
      in if \<not> truthy gameId \<or> \<not> truthy commentId then
           (missing_required [''gameId'', ''commentId''], s)
         else
           let roomName = getGameRoomName gameId;
               (recipientCount, s1) =
                 emitToGame gameId ''game_comment_delete''
                   (Some (JObj (js_object [(''id'', commentId), (''gameId'', gameId)]))) s
           in (ok_json [(''success'', Some (JBool True)), (''gameId'', gameId),
                        (''commentId'', commentId),
                        (''room'', Some (JStr roomName)),
                        (''recipients'', Some (JNum (nat_digits recipientCount))),
                        (''event'', Some (JStr ''game_comment_delete'')),
                        (''timestamp'', Some (JStr now))], s1))"

definition post_test_send_message :: "json \<Rightarrow> server \<Rightarrow> response \<times> server" where
  "post_test_send_message req_body s =
     (let gameId = get_prop (Some req_body) ''gameId'';
          message = get_prop (Some req_body) ''message''
      in if \<not> truthy gameId then (bad_request ''gameId is required'', s)
         else
           let roomName = getGameRoomName gameId;
               testMessage = (if truthy message then message
                              else Some (JStr ''Test message from server''));
               s1 = io_to_emit roomName ''message''
                      (Some (JObj (js_object [(''room'', Some (JStr roomName)),
                                              (''message'', testMessage),
                                              (''type'', Some (JStr ''test''))]))) s
           in (ok_json [(''success'', Some (JBool True)), (''room'', Some (JStr roomName)),
                        (''recipients'', Some (JNum (nat_digits (getRoomSize s1 roomName)))),
                        (''message'', testMessage)], s1))"

section \<open>The event loop\<close>

text \<open>
  The events of a socket, with the arguments the handlers destructure: a room name is a
  string, a payload is an object whose fields may be absent.
\<close>

datatype socket_event =
    JoinRoom room
  | LeaveRoom room
  | Register "json option"
  | BroadcastPlayersUpdated "json option"
  | BroadcastCommentNew "json option" "json option"
  | Message room "json option"
  | PrivateMessage room "json option"
  | Disconnect string "json option"
  | SocketError "json option"

datatype http_request =
    GetRoom string
  | PostGameCommentNew json
  | PostGameCommentEdit json
  | PostGameCommentDelete json
  | PostTestSendMessage json

datatype event =
    Connection sid string date
  | Socket sid socket_event
  | Http date http_request

text \<open>
  A disconnect is the transport's removal of the socket from its channels, then the
  \<open>disconnect\<close> handler of the source.
\<close>

definition socket_disconnect :: "sid \<Rightarrow> string \<Rightarrow> json option \<Rightarrow> server \<Rightarrow> server" where
  "socket_disconnect c reason details s = on_disconnect c reason details (socket_leaveAll c s)"

fun handle :: "sid \<Rightarrow> socket_event \<Rightarrow> server \<Rightarrow> server" where
  "handle c (JoinRoom r) s = on_joinRoom c r s"
| "handle c (LeaveRoom r) s = on_leaveRoom c r s"
| "handle c (Register uid) s = on_register c uid s"
| "handle c (BroadcastPlayersUpdated gameId) s = on_broadcast_players_updated c gameId s"
| "handle c (BroadcastCommentNew gameId comment) s = on_broadcast_comment_new c gameId comment s"
| "handle c (Message r message) s = on_message c r message s"
| "handle c (PrivateMessage to message) s = on_privateMessage c to message s"
| "handle c (Disconnect reason details) s = socket_disconnect c reason details s"
| "handle c (SocketError err) s = on_error c err s"

fun http :: "date \<Rightarrow> http_request \<Rightarrow> server \<Rightarrow> response \<times> server" where
  "http now (GetRoom roomName) s = get_room roomName s"
| "http now (PostGameCommentNew b) s = post_game_comment_new now b s"
| "http now (PostGameCommentEdit b) s = post_game_comment_edit now b s"
| "http now (PostGameCommentDelete b) s = post_game_comment_delete now b s"
| "http now (PostTestSendMessage b) s = post_test_send_message b s"

text \<open>
  One turn of the event loop. The transport gives every connection a fresh id and delivers
  socket events of live connections only, so a connection event for a live id and a socket
  event for an id that is not live do not occur: the step leaves the state as it is.
\<close>

fun step :: "server \<Rightarrow> event \<Rightarrow> server" where
  "step s (Connection c addr now) =
     (if c \<in> dom (connectedClients s) then s else on_connection c addr now s)"
| "step s (Socket c e) = (if c \<in> dom (connectedClients s) then handle c e s else s)"
| "step s (Http now req) = snd (http now req s)"

text \<open>The state reached from the initial one by a sequence of events, oldest first.\<close>

definition run :: "event list \<Rightarrow> server" where
  "run es = foldl step init es"

section \<open>Specification of membership\<close>

text \<open>
  The membership index and the per-connection channel sets say the same: \<open>c\<close> is a
  member of \<open>r\<close> exactly when \<open>r\<close> is in the channel set of the record of \<open>c\<close>.
\<close>

definition consistent :: "server \<Rightarrow> bool" where
  "consistent s = (\<forall>c r. (c \<in> members s r) = (r \<in> client_rooms s c))"

text \<open>
  The spec's words, read on the history of events (newest first): a connection is live
  when it connected and has not disconnected since.
\<close>

fun is_live :: "event list \<Rightarrow> sid \<Rightarrow> bool" where
  "is_live [] c = False"
| "is_live (Connection c' addr now # h) c = (c' = c \<or> is_live h c)"
| "is_live (Socket c' (Disconnect reason details) # h) c = (c' \<noteq> c \<and> is_live h c)"
| "is_live (e # h) c = is_live h c"

text \<open>
  An event executes \<open>join(c, r)\<close>: a \<open>joinRoom\<close> of \<open>r\<close> by \<open>c\<close>, or a \<open>register\<close>
  by \<open>c\<close>, which joins \<open>c\<close> to the channel of the user id.
\<close>

fun joins :: "event \<Rightarrow> sid \<Rightarrow> room \<Rightarrow> bool" where
  "joins (Socket c' (JoinRoom r')) c r = (c' = c \<and> r' = r)"
| "joins (Socket c' (Register uid)) c r = (c' = c \<and> r = ''user_'' @ template uid)"
| "joins e c r = False"

text \<open>An event is \<open>leave(c, r)\<close> or the disconnect of \<open>c\<close>.\<close>

fun ends_membership :: "event \<Rightarrow> sid \<Rightarrow> room \<Rightarrow> bool" where
  "ends_membership (Socket c' (LeaveRoom r')) c r = (c' = c \<and> r' = r)"
| "ends_membership (Socket c' (Disconnect reason details)) c r = (c' = c)"
| "ends_membership e c r = False"

text \<open>
  The connection last executed \<open>join(c, r)\<close>, as a live connection, with no
  \<open>leave(c, r)\<close> and no disconnect of \<open>c\<close> after it.
\<close>

fun last_joined :: "event list \<Rightarrow> sid \<Rightarrow> room \<Rightarrow> bool" where
  "last_joined [] c r = False"
| "last_joined (e # h) c r =
     (if joins e c r then is_live h c
      else if ends_membership e c r then False
      else last_joined h c r)"


section \<open>Scenarios\<close>

text \<open>
  The state of the spec's HTTP scenario: \<open>a\<close> and \<open>b\<close> are connected and have joined
  \<open>game_123\<close>.
\<close>

definition two_in_game_123 :: server where
  "two_in_game_123 =
     run [Connection ''a'' ''10.0.0.1'' ''t0'', Connection ''b'' ''10.0.0.2'' ''t1'',
          Socket ''a'' (JoinRoom ''game_123''), Socket ''b'' (JoinRoom ''game_123'')]"

text \<open>The same with \<open>game_0\<close>, the channel of game id 0.\<close>

definition two_in_game_0 :: server where
  "two_in_game_0 =
     run [Connection ''a'' ''10.0.0.1'' ''t0'', Connection ''b'' ''10.0.0.2'' ''t1'',
          Socket ''a'' (JoinRoom ''game_0''), Socket ''b'' (JoinRoom ''game_0'')]"




section \<open>Effects of the primitive operations\<close>

lemma members_socket_join [simp]:
  "members (socket_join c r s) r' = (if r' = r then insert c (members s r) else members s r')"
  by (simp add: members_def socket_join_def)

lemma members_socket_leave [simp]:
  "members (socket_leave c r s) r' = (if r' = r then members s r - {c} else members s r')"
  by (auto simp: members_def socket_leave_def room_without_def split: option.splits)

lemma members_socket_leaveAll [simp]:
  "members (socket_leaveAll c s) r = members s r - {c}"
  by (auto simp: members_def socket_leaveAll_def room_without_def split: option.splits)

lemma members_frame [simp]:
  "members (socket_emit c ev d s) = members s"
  "members (io_to_emit r ev d s) = members s"
  "members (console_log msg s) = members s"
  "members (console_warn msg s) = members s"
  "members (console_log_with l msg v s) = members s"
  "members (modify_client c f s) = members s"
  "members (s\<lparr>connectedClients := m\<rparr>) = members s"
  by (auto simp: members_def socket_emit_def io_to_emit_def console_log_def console_warn_def
      console_log_with_def modify_client_def fun_eq_iff split: option.splits)

lemma clients_frame [simp]:
  "connectedClients (socket_join c r s) = connectedClients s"
  "connectedClients (socket_leave c r s) = connectedClients s"
  "connectedClients (socket_leaveAll c s) = connectedClients s"
  "connectedClients (socket_emit c ev d s) = connectedClients s"
  "connectedClients (io_to_emit r ev d s) = connectedClients s"
  "connectedClients (console_log msg s) = connectedClients s"
  "connectedClients (console_warn msg s) = connectedClients s"
  "connectedClients (console_log_with l msg v s) = connectedClients s"
  by (simp_all add: socket_join_def socket_leave_def socket_leaveAll_def socket_emit_def
      io_to_emit_def console_log_def console_warn_def console_log_with_def)

lemma clients_modify_client [simp]:
  "connectedClients (modify_client c f s) =
     (case connectedClients s c of None \<Rightarrow> connectedClients s
      | Some ci \<Rightarrow> (connectedClients s)(c \<mapsto> f ci))"
  by (simp add: modify_client_def split: option.splits)

lemma client_rooms_frame [simp]:
  "client_rooms (socket_join c r s) = client_rooms s"
  "client_rooms (socket_leave c r s) = client_rooms s"
  "client_rooms (socket_leaveAll c s) = client_rooms s"
  "client_rooms (socket_emit c ev d s) = client_rooms s"
  "client_rooms (io_to_emit r ev d s) = client_rooms s"
  "client_rooms (console_log msg s) = client_rooms s"
  "client_rooms (console_warn msg s) = client_rooms s"
  "client_rooms (console_log_with l msg v s) = client_rooms s"
  by (simp_all add: client_rooms_def fun_eq_iff)

lemma delivered_frame [simp]:
  "delivered (socket_join c r s) = delivered s"
  "delivered (socket_leave c r s) = delivered s"
  "delivered (socket_leaveAll c s) = delivered s"
  "delivered (console_log msg s) = delivered s"
  "delivered (console_warn msg s) = delivered s"
  "delivered (console_log_with l msg v s) = delivered s"
  "delivered (modify_client c f s) = delivered s"
  "delivered (s\<lparr>connectedClients := m\<rparr>) = delivered s"
  by (simp_all add: socket_join_def socket_leave_def socket_leaveAll_def
      console_log_def console_warn_def console_log_with_def modify_client_def
      split: option.splits)

lemma delivered_socket_emit [simp]:
  "delivered (socket_emit c ev d s) c' =
     (if c' = c then delivered s c @ [(ev, d)] else delivered s c')"
  by (simp add: socket_emit_def)

lemma delivered_io_to_emit [simp]:
  "delivered (io_to_emit r ev d s) c =
     (if c \<in> members s r then delivered s c @ [(ev, d)] else delivered s c)"
  by (simp add: io_to_emit_def)

lemma adapter_frame [simp]:
  "adapter_rooms (socket_emit c ev d s) = adapter_rooms s"
  "adapter_rooms (io_to_emit r ev d s) = adapter_rooms s"
  "adapter_rooms (console_log msg s) = adapter_rooms s"
  "adapter_rooms (console_warn msg s) = adapter_rooms s"
  "adapter_rooms (console_log_with l msg v s) = adapter_rooms s"
  "adapter_rooms (modify_client c f s) = adapter_rooms s"
  by (simp_all add: socket_emit_def io_to_emit_def console_log_def console_warn_def
      console_log_with_def modify_client_def split: option.splits)

lemma console_frame [simp]:
  "console (socket_join c r s) = console s"
  "console (socket_leave c r s) = console s"
  "console (socket_leaveAll c s) = console s"
  "console (socket_emit c ev d s) = console s"
  "console (io_to_emit r ev d s) = console s"
  "console (modify_client c f s) = console s"
  by (simp_all add: socket_join_def socket_leave_def socket_leaveAll_def socket_emit_def
      io_to_emit_def modify_client_def split: option.splits)

lemma console_append [simp]:
  "console (console_log msg s) = console s @ [Console LOG msg]"
  "console (console_warn msg s) = console s @ [Console WARN msg]"
  "console (console_log_with l msg v s) = console s @ [ConsoleWith l msg v]"
  by (simp_all add: console_log_def console_warn_def console_log_with_def)

lemma getRoomSize_members: "getRoomSize s r = card (members s r)"
  by (simp add: getRoomSize_def members_def split: option.splits)

section \<open>Effects of the handlers on membership\<close>

lemma members_on_joinRoom [simp]:
  "members (on_joinRoom c r s) r' = (if r' = r then insert c (members s r) else members s r')"
  by (simp add: on_joinRoom_def Let_def)

lemma members_on_leaveRoom [simp]:
  "members (on_leaveRoom c r s) r' = (if r' = r then members s r - {c} else members s r')"
  by (simp add: on_leaveRoom_def Let_def)

lemma members_on_register [simp]:
  "members (on_register c uid s) r' =
     (if r' = ''user_'' @ template uid then insert c (members s r') else members s r')"
  by (simp add: on_register_def Let_def)

lemma members_socket_disconnect [simp]:
  "members (socket_disconnect c reason details s) r = members s r - {c}"
  by (simp add: socket_disconnect_def on_disconnect_def Let_def)

lemma members_others [simp]:
  "members (on_connection c addr now s) = members s"
  "members (on_broadcast_players_updated c gameId s) = members s"
  "members (on_broadcast_comment_new c gameId comment s) = members s"
  "members (on_message c r message s) = members s"
  "members (on_privateMessage c to message s) = members s"
  "members (on_error c err s) = members s"
  by (simp_all add: on_connection_def on_broadcast_players_updated_def
      on_broadcast_comment_new_def on_message_def on_privateMessage_def on_error_def Let_def)

lemma emitToGame_frame [simp]:
  "members (snd (emitToGame g ev d s)) = members s"
  "connectedClients (snd (emitToGame g ev d s)) = connectedClients s"
  "adapter_rooms (snd (emitToGame g ev d s)) = adapter_rooms s"
  "fst (emitToGame g ev d s) = getRoomSize s (getGameRoomName g)"
  by (simp_all add: emitToGame_def Let_def)

lemma http_frame [simp]:
  "members (snd (http now req s)) = members s"
  "connectedClients (snd (http now req s)) = connectedClients s"
  "adapter_rooms (snd (http now req s)) = adapter_rooms s"
  by (cases req; simp add: get_room_def post_game_comment_new_def post_game_comment_edit_def
      post_game_comment_delete_def post_test_send_message_def Let_def split_beta)+


section \<open>Effects of the handlers on the registry\<close>

lemma client_rooms_modify_client [simp]:
  "client_rooms (modify_client c f s) c' =
     (if c' = c then (case connectedClients s c of None \<Rightarrow> {} | Some ci \<Rightarrow> rooms (f ci))
      else client_rooms s c')"
  by (simp add: client_rooms_def split: option.splits)

lemma dom_modify_client [simp]:
  "dom (connectedClients (modify_client c f s)) = dom (connectedClients s)"
  by (auto simp: modify_client_def split: option.splits)

lemma dom_handlers [simp]:
  "dom (connectedClients (on_joinRoom c r s)) = dom (connectedClients s)"
  "dom (connectedClients (on_leaveRoom c r s)) = dom (connectedClients s)"
  "dom (connectedClients (on_register c uid s)) = dom (connectedClients s)"
  "dom (connectedClients (on_connection c addr now s)) = insert c (dom (connectedClients s))"
  "dom (connectedClients (socket_disconnect c reason details s)) = dom (connectedClients s) - {c}"
  by (simp_all add: on_joinRoom_def on_leaveRoom_def on_register_def on_connection_def
      socket_disconnect_def on_disconnect_def Let_def del: clients_modify_client)

lemma clients_others [simp]:
  "connectedClients (on_broadcast_players_updated c gameId s) = connectedClients s"
  "connectedClients (on_broadcast_comment_new c gameId comment s) = connectedClients s"
  "connectedClients (on_message c r message s) = connectedClients s"
  "connectedClients (on_privateMessage c to message s) = connectedClients s"
  "connectedClients (on_error c err s) = connectedClients s"
  by (simp_all add: on_broadcast_players_updated_def
      on_broadcast_comment_new_def on_message_def on_privateMessage_def on_error_def Let_def)

lemma client_rooms_cong:
  "connectedClients s' = connectedClients s \<Longrightarrow> client_rooms s' = client_rooms s"
  by (simp add: client_rooms_def fun_eq_iff)

lemma client_rooms_on_joinRoom [simp]:
  "client_rooms (on_joinRoom c r s) c' =
     (if c' = c \<and> c \<in> dom (connectedClients s) then insert r (client_rooms s c)
      else client_rooms s c')"
  by (auto simp: on_joinRoom_def Let_def client_rooms_def split: option.splits)

lemma client_rooms_on_leaveRoom [simp]:
  "client_rooms (on_leaveRoom c r s) c' =
     (if c' = c then client_rooms s c - {r} else client_rooms s c')"
  by (auto simp: on_leaveRoom_def Let_def client_rooms_def split: option.splits)

lemma client_rooms_on_register [simp]:
  "client_rooms (on_register c uid s) c' =
     (if c' = c \<and> c \<in> dom (connectedClients s)
      then insert (''user_'' @ template uid) (client_rooms s c)
      else client_rooms s c')"
  by (auto simp: on_register_def Let_def client_rooms_def split: option.splits)

lemma client_rooms_on_connection [simp]:
  "client_rooms (on_connection c addr now s) c' = (if c' = c then {} else client_rooms s c')"
  by (simp add: on_connection_def Let_def client_rooms_def)

lemma client_rooms_socket_disconnect [simp]:
  "client_rooms (socket_disconnect c reason details s) c' =
     (if c' = c then {} else client_rooms s c')"
  by (simp add: socket_disconnect_def on_disconnect_def Let_def client_rooms_def)

lemma client_rooms_others [simp]:
  "client_rooms (on_broadcast_players_updated c gameId s) = client_rooms s"
  "client_rooms (on_broadcast_comment_new c gameId comment s) = client_rooms s"
  "client_rooms (on_message c r message s) = client_rooms s"
  "client_rooms (on_privateMessage c to message s) = client_rooms s"
  "client_rooms (on_error c err s) = client_rooms s"
  "client_rooms (snd (http now req s)) = client_rooms s"
  by (rule client_rooms_cong, simp)+

lemma client_rooms_not_live: "c \<notin> dom (connectedClients s) \<Longrightarrow> client_rooms s c = {}"
  by (auto simp: client_rooms_def split: option.splits)

section \<open>Reachable states\<close>

lemma run_Nil [simp]: "run [] = init"
  by (simp add: run_def)

lemma run_snoc [simp]: "run (es @ [e]) = step (run es) e"
  by (simp add: run_def)

lemma members_init [simp]: "members init r = {}"
  by (simp add: members_def init_def)

lemma client_rooms_init [simp]: "client_rooms init c = {}"
  by (simp add: client_rooms_def init_def)

lemma consistent_init: "consistent init"
  by (simp add: consistent_def)

lemma consistent_step: "consistent s \<Longrightarrow> consistent (step s e)"
proof (cases e)
  case (Connection c addr now)
  assume "consistent s"
  then show ?thesis using Connection
    by (auto simp: consistent_def client_rooms_not_live)
next
  case (Socket c ev)
  assume "consistent s"
  then show ?thesis using Socket
    by (cases ev) (auto simp: consistent_def)
next
  case (Http now req)
  assume "consistent s"
  then show ?thesis using Http
    by (simp add: consistent_def)
qed

lemma consistent_run: "consistent (run es)"
  by (induction es rule: rev_induct) (simp_all add: consistent_init consistent_step)

lemma live_run: "(c \<in> dom (connectedClients (run es))) = is_live (rev es) c"
proof (induction es rule: rev_induct)
  case Nil
  show ?case by (simp add: init_def)
next
  case (snoc e es)
  show ?case
  proof (cases e)
    case (Connection c' addr now)
    then show ?thesis using snoc by auto
  next
    case (Socket c' ev)
    then show ?thesis using snoc by (cases ev) auto
  next
    case (Http now req)
    then show ?thesis using snoc by simp
  qed
qed

lemma last_joined_live: "last_joined h c r \<Longrightarrow> is_live h c"
  by (induction h c r rule: last_joined.induct) (auto split: if_splits elim: joins.elims ends_membership.elims)

text \<open>
  C1. In every reachable state, that is after any sequence of events from the initial
  state, the member set of every channel \<open>r\<close> is exactly the set of live connections
  that last executed a join of \<open>r\<close> (by \<open>joinRoom\<close>, or by \<open>register\<close> for the
  channel of the user id) with no leave of \<open>r\<close> and no disconnect after it. The
  statement is over all event sequences, so every operation preserves it.
\<close>

theorem member_set_is_last_joined:
  "members (run es) r = {c. is_live (rev es) c \<and> last_joined (rev es) c r}"
proof (induction es rule: rev_induct)
  case Nil
  show ?case by simp
next
  case (snoc e es)
  have live: "\<And>c. (c \<in> dom (connectedClients (run es))) = is_live (rev es) c"
    by (rule live_run)
  have sub: "\<And>c. last_joined (rev es) c r \<Longrightarrow> is_live (rev es) c"
    by (rule last_joined_live)
  show ?case
  proof (cases e)
    case (Connection c' addr now)
    then show ?thesis using snoc live sub by auto
  next
    case (Socket c' ev)
    then show ?thesis using snoc live sub by (cases ev) auto
  next
    case (Http now req)
    then show ?thesis using snoc by simp
  qed
qed

lemma fields_init [simp]:
  "connectedClients init = Map.empty"
  "adapter_rooms init = Map.empty"
  "delivered init = (\<lambda>c. [])"
  "console init = []"
  by (simp_all add: init_def)

lemma consistent_client_rooms:
  "consistent s \<Longrightarrow> (r \<in> client_rooms s c) = (c \<in> members s r)"
  by (simp add: consistent_def)

lemma getGameRoomName_42: "getGameRoomName (Some (JNum ''42'')) = ''game_42''"
  by (simp add: getGameRoomName_def template_def)

section \<open>The gated broadcast\<close>

text \<open>
  C2. In a reachable state, a live connection \<open>c\<close> that is not a member of channel
  \<open>game_<gameId>\<close> sends \<open>broadcast_comment_new({gameId, comment})\<close>: no packet is
  handed to any connection (none to the members of the channel, none back to the sender),
  membership and registry are as before, and the console gets one warning line.
\<close>

theorem gated_broadcast_dropped:
  assumes live: "c \<in> dom (connectedClients (run es))"
    and out: "c \<notin> members (run es) (getGameRoomName gameId)"
  shows "delivered (step (run es) (Socket c (BroadcastCommentNew gameId comment)))
           = delivered (run es)
       \<and> adapter_rooms (step (run es) (Socket c (BroadcastCommentNew gameId comment)))
           = adapter_rooms (run es)
       \<and> connectedClients (step (run es) (Socket c (BroadcastCommentNew gameId comment)))
           = connectedClients (run es)
       \<and> (\<exists>msg. console (step (run es) (Socket c (BroadcastCommentNew gameId comment)))
           = console (run es) @ [Console WARN msg])"
proof -
  have "getGameRoomName gameId \<notin> client_rooms (run es) c"
    using out consistent_client_rooms [OF consistent_run] by simp
  then show ?thesis
    using live by (simp add: on_broadcast_comment_new_def Let_def)
qed

text \<open>
  At a concrete input: \<open>a\<close> is in \<open>game_42\<close>, \<open>b\<close> is connected and is not, and
  \<open>b\<close> sends the gated broadcast for game 42.
\<close>

theorem gated_broadcast_dropped_witness:
  "''a'' \<in> members (run [Connection ''a'' ''10.0.0.1'' ''t0'',
                          Connection ''b'' ''10.0.0.2'' ''t1'',
                          Socket ''a'' (JoinRoom ''game_42'')]) ''game_42''
   \<and> delivered (step (run [Connection ''a'' ''10.0.0.1'' ''t0'',
                            Connection ''b'' ''10.0.0.2'' ''t1'',
                            Socket ''a'' (JoinRoom ''game_42'')])
          (Socket ''b'' (BroadcastCommentNew (Some (JNum ''42''))
             (Some (JObj [(''id'', JNum ''1''), (''text'', JStr ''hi'')])))))
      = delivered (run [Connection ''a'' ''10.0.0.1'' ''t0'',
                        Connection ''b'' ''10.0.0.2'' ''t1'',
                        Socket ''a'' (JoinRoom ''game_42'')])"
  using gated_broadcast_dropped [of "''b''"
      "[Connection ''a'' ''10.0.0.1'' ''t0'', Connection ''b'' ''10.0.0.2'' ''t1'',
        Socket ''a'' (JoinRoom ''game_42'')]"
      "Some (JNum ''42'')" "Some (JObj [(''id'', JNum ''1''), (''text'', JStr ''hi'')])"]
  by (simp add: run_def getGameRoomName_42)

section \<open>Joining twice\<close>

text \<open>
  C5. Executing \<open>join(c, r)\<close> twice in succession leaves the same membership as
  executing it once: the same membership index, the same registry with the same
  per-connection channel sets, and the same size of every channel. The second join is a
  no-op on membership; the handler has no error outcome.
\<close>

theorem join_twice_same:
  "adapter_rooms (on_joinRoom c r (on_joinRoom c r s)) = adapter_rooms (on_joinRoom c r s)
   \<and> connectedClients (on_joinRoom c r (on_joinRoom c r s)) = connectedClients (on_joinRoom c r s)
   \<and> members (on_joinRoom c r (on_joinRoom c r s)) = members (on_joinRoom c r s)
   \<and> client_rooms (on_joinRoom c r (on_joinRoom c r s)) = client_rooms (on_joinRoom c r s)
   \<and> getRoomSize (on_joinRoom c r (on_joinRoom c r s)) = getRoomSize (on_joinRoom c r s)"
  by (auto simp: on_joinRoom_def Let_def getRoomSize_def fun_eq_iff socket_join_def members_def
      client_rooms_def split: option.splits)

section \<open>Registration\<close>




section \<open>HTTP broadcast of a new comment\<close>


lemma delivered_emitToGame [simp]:
  "delivered (snd (emitToGame g ev d s)) =
     (\<lambda>c. if c \<in> members s (getGameRoomName g) then delivered s c @ [(ev, d)]
          else delivered s c)"
  by (simp add: emitToGame_def Let_def fun_eq_iff)


lemma members_two_in_game_123 [simp]:
  "members two_in_game_123 r = (if r = ''game_123'' then {''a'', ''b''} else {})"
  by (auto simp: two_in_game_123_def run_def)

lemma members_two_in_game_0 [simp]:
  "members two_in_game_0 r = (if r = ''game_0'' then {''a'', ''b''} else {})"
  by (auto simp: two_in_game_0_def run_def)




section \<open>HTTP validation\<close>

lemma new_rejects:
  assumes "\<not> truthy (get_prop (Some b) ''gameId'') \<or> \<not> truthy (get_prop (Some b) ''comment'')
         \<or> \<not> truthy (get_prop (get_prop (Some b) ''comment'') ''id'')
         \<or> \<not> truthy (get_prop (get_prop (Some b) ''comment'') ''text'')"
  shows "status (fst (post_game_comment_new now b s)) = 400
       \<and> snd (post_game_comment_new now b s) = s"
  using assms
  by (auto simp: post_game_comment_new_def Let_def missing_required_def bad_request_def)

lemma edit_rejects:
  assumes "\<not> truthy (get_prop (Some b) ''gameId'') \<or> \<not> truthy (get_prop (Some b) ''comment'')
         \<or> \<not> truthy (get_prop (get_prop (Some b) ''comment'') ''id'')"
  shows "status (fst (post_game_comment_edit now b s)) = 400
       \<and> snd (post_game_comment_edit now b s) = s"
  using assms
  by (auto simp: post_game_comment_edit_def Let_def missing_required_def bad_request_def)

lemma delete_rejects:
  assumes "\<not> truthy (get_prop (Some b) ''gameId'') \<or> \<not> truthy (get_prop (Some b) ''commentId'')"
  shows "status (fst (post_game_comment_delete now b s)) = 400
       \<and> snd (post_game_comment_delete now b s) = s"
  using assms
  by (auto simp: post_game_comment_delete_def Let_def missing_required_def)

lemma new_required_list:
  assumes "\<not> truthy (get_prop (Some b) ''gameId'') \<or> \<not> truthy (get_prop (Some b) ''comment'')"
  shows "body (fst (post_game_comment_new now b s))
           = JObj [(''error'', JStr ''Missing required fields''),
                   (''required'', JArr [JStr ''gameId'', JStr ''comment''])]"
  using assms by (auto simp: post_game_comment_new_def Let_def missing_required_def)

lemma edit_required_list:
  assumes "\<not> truthy (get_prop (Some b) ''gameId'') \<or> \<not> truthy (get_prop (Some b) ''comment'')"
  shows "body (fst (post_game_comment_edit now b s))
           = JObj [(''error'', JStr ''Missing required fields''),
                   (''required'', JArr [JStr ''gameId'', JStr ''comment''])]"
  using assms by (auto simp: post_game_comment_edit_def Let_def missing_required_def)

lemma delete_required_list:
  assumes "\<not> truthy (get_prop (Some b) ''gameId'') \<or> \<not> truthy (get_prop (Some b) ''commentId'')"
  shows "body (fst (post_game_comment_delete now b s))
           = JObj [(''error'', JStr ''Missing required fields''),
                   (''required'', JArr [JStr ''gameId'', JStr ''commentId''])]"
  using assms by (auto simp: post_game_comment_delete_def Let_def missing_required_def)

lemma new_comment_fields_message:
  assumes "truthy (get_prop (Some b) ''gameId'')" "truthy (get_prop (Some b) ''comment'')"
    and "\<not> truthy (get_prop (get_prop (Some b) ''comment'') ''id'')
       \<or> \<not> truthy (get_prop (get_prop (Some b) ''comment'') ''text'')"
  shows "body (fst (post_game_comment_new now b s))
           = JObj [(''error'', JStr ''Comment must have id and text fields'')]"
  using assms by (auto simp: post_game_comment_new_def Let_def bad_request_def)

lemma edit_comment_fields_message:
  assumes "truthy (get_prop (Some b) ''gameId'')" "truthy (get_prop (Some b) ''comment'')"
    and "\<not> truthy (get_prop (get_prop (Some b) ''comment'') ''id'')"
  shows "body (fst (post_game_comment_edit now b s))
           = JObj [(''error'', JStr ''Comment must have id field'')]"
  using assms by (auto simp: post_game_comment_edit_def Let_def bad_request_def)

text \<open>
  C4, as stated, fails for the fields of the comment: the body
  \<open>{gameId: 123, comment: {text: "hi"}}\<close> lacks the required \<open>comment.id\<close>, and the
  response is 400 with an error message and no list of required fields.
\<close>

theorem missing_comment_id_no_list_counterexample:
  "get_prop (Some (JObj [(''text'', JStr ''hi'')])) ''id'' = None
   \<and> fst (post_game_comment_new ''t2''
        (JObj [(''gameId'', JNum ''123''), (''comment'', JObj [(''text'', JStr ''hi'')])])
        two_in_game_123)
      = \<lparr> status = 400,
          body = JObj [(''error'', JStr ''Comment must have id and text fields'')] \<rparr>
   \<and> get_prop (Some (body (fst (post_game_comment_new ''t2''
        (JObj [(''gameId'', JNum ''123''), (''comment'', JObj [(''text'', JStr ''hi'')])])
        two_in_game_123)))) ''required'' = None"
  by (simp add: post_game_comment_new_def bad_request_def)

text \<open>
  C4, amended. For each of the three HTTP broadcast endpoints, when a required field is
  missing from the body the response is status 400, nothing is broadcast and the state is
  exactly as before. The response carries the list of required fields when \<open>gameId\<close> or
  \<open>comment\<close> (for delete: \<open>commentId\<close>) is missing or falsy (\<open>0\<close>, \<open>""\<close>,
  \<open>null\<close>, \<open>false\<close>); when \<open>gameId\<close> and \<open>comment\<close> are both truthy and
  \<open>comment.id\<close> (for new: or \<open>comment.text\<close>) is missing, it carries an error message
  only. These two cases cover every request with a missing required field.
\<close>

theorem missing_field_rejected:
  "(get_prop (Some b) ''gameId'' = None \<or> get_prop (Some b) ''comment'' = None
      \<or> get_prop (get_prop (Some b) ''comment'') ''id'' = None
      \<or> get_prop (get_prop (Some b) ''comment'') ''text'' = None
    \<longrightarrow> status (fst (post_game_comment_new now b s)) = 400
      \<and> snd (post_game_comment_new now b s) = s)
 \<and> (\<not> truthy (get_prop (Some b) ''gameId'') \<or> \<not> truthy (get_prop (Some b) ''comment'')
    \<longrightarrow> body (fst (post_game_comment_new now b s))
          = JObj [(''error'', JStr ''Missing required fields''),
                  (''required'', JArr [JStr ''gameId'', JStr ''comment''])])
 \<and> (truthy (get_prop (Some b) ''gameId'') \<and> truthy (get_prop (Some b) ''comment'')
      \<and> (get_prop (get_prop (Some b) ''comment'') ''id'' = None
          \<or> get_prop (get_prop (Some b) ''comment'') ''text'' = None)
    \<longrightarrow> body (fst (post_game_comment_new now b s))
          = JObj [(''error'', JStr ''Comment must have id and text fields'')])
 \<and> (get_prop (Some b) ''gameId'' = None \<or> get_prop (Some b) ''comment'' = None
      \<or> get_prop (get_prop (Some b) ''comment'') ''id'' = None
    \<longrightarrow> status (fst (post_game_comment_edit now b s)) = 400
      \<and> snd (post_game_comment_edit now b s) = s)
 \<and> (\<not> truthy (get_prop (Some b) ''gameId'') \<or> \<not> truthy (get_prop (Some b) ''comment'')
    \<longrightarrow> body (fst (post_game_comment_edit now b s))
          = JObj [(''error'', JStr ''Missing required fields''),
                  (''required'', JArr [JStr ''gameId'', JStr ''comment''])])
 \<and> (truthy (get_prop (Some b) ''gameId'') \<and> truthy (get_prop (Some b) ''comment'')
      \<and> get_prop (get_prop (Some b) ''comment'') ''id'' = None
    \<longrightarrow> body (fst (post_game_comment_edit now b s))
          = JObj [(''error'', JStr ''Comment must have id field'')])
 \<and> (get_prop (Some b) ''gameId'' = None \<or> get_prop (Some b) ''commentId'' = None
    \<longrightarrow> status (fst (post_game_comment_delete now b s)) = 400
      \<and> snd (post_game_comment_delete now b s) = s)
 \<and> (\<not> truthy (get_prop (Some b) ''gameId'') \<or> \<not> truthy (get_prop (Some b) ''commentId'')
    \<longrightarrow> body (fst (post_game_comment_delete now b s))
          = JObj [(''error'', JStr ''Missing required fields''),
                  (''required'', JArr [JStr ''gameId'', JStr ''commentId''])])"
proof -
  have none: "\<And>v. v = None \<Longrightarrow> \<not> truthy v"
    by simp
  show ?thesis
    using new_rejects [of b now s] new_required_list [of b now s]
      new_comment_fields_message [of b now s]
      edit_rejects [of b now s] edit_required_list [of b now s]
      edit_comment_fields_message [of b now s]
      delete_rejects [of b now s] delete_required_list [of b now s]
    by (intro conjI impI; elim disjE conjE; simp only: none simp_thms)
qed

text \<open>
  The spec's validation scenario: a delete with body \<open>{gameId: 123}\<close> while two
  connections are in \<open>game_123\<close>.
\<close>

theorem missing_field_rejected_witness:
  "status (fst (post_game_comment_delete ''t2'' (JObj [(''gameId'', JNum ''123'')])
       two_in_game_123)) = 400
   \<and> snd (post_game_comment_delete ''t2'' (JObj [(''gameId'', JNum ''123'')]) two_in_game_123)
       = two_in_game_123
   \<and> get_prop (Some (body (fst (post_game_comment_delete ''t2''
       (JObj [(''gameId'', JNum ''123'')]) two_in_game_123)))) ''required''
       = Some (JArr [JStr ''gameId'', JStr ''commentId''])"
  using missing_field_rejected [of "JObj [(''gameId'', JNum ''123'')]" "''t2''" two_in_game_123]
  by simp

text \<open>
  C10. The endpoints test the required fields for truthiness: a request in which
  \<open>gameId\<close>, \<open>commentId\<close> or \<open>comment.id\<close> is present and equal to \<open>0\<close>, or
  \<open>comment.text\<close> of a new comment is the empty string, is answered with 400, and the
  state is exactly as before (nothing is broadcast).
\<close>

theorem falsy_field_rejected:
  "(get_prop (Some b) ''gameId'' = Some (JNum ''0'')
      \<or> get_prop (get_prop (Some b) ''comment'') ''id'' = Some (JNum ''0'')
      \<or> get_prop (get_prop (Some b) ''comment'') ''text'' = Some (JStr '''')
    \<longrightarrow> status (fst (post_game_comment_new now b s)) = 400
      \<and> snd (post_game_comment_new now b s) = s)
 \<and> (get_prop (Some b) ''gameId'' = Some (JNum ''0'')
      \<or> get_prop (get_prop (Some b) ''comment'') ''id'' = Some (JNum ''0'')
    \<longrightarrow> status (fst (post_game_comment_edit now b s)) = 400
      \<and> snd (post_game_comment_edit now b s) = s)
 \<and> (get_prop (Some b) ''gameId'' = Some (JNum ''0'')
      \<or> get_prop (Some b) ''commentId'' = Some (JNum ''0'')
    \<longrightarrow> status (fst (post_game_comment_delete now b s)) = 400
      \<and> snd (post_game_comment_delete now b s) = s)"
proof -
  have zero: "\<And>v. v = Some (JNum ''0'') \<Longrightarrow> \<not> truthy v"
    and empty: "\<And>v. v = Some (JStr '''') \<Longrightarrow> \<not> truthy v"
    by simp_all
  show ?thesis
    using new_rejects [of b now s] edit_rejects [of b now s] delete_rejects [of b now s]
    by (intro conjI impI; elim disjE; simp only: zero empty simp_thms)
qed

text \<open>
  At a concrete input: a new comment for game 123 with \<open>comment.id\<close> equal to \<open>0\<close>,
  while two connections are in \<open>game_123\<close>.
\<close>

theorem falsy_field_rejected_witness:
  "status (fst (post_game_comment_new ''t2''
      (JObj [(''gameId'', JNum ''123''),
             (''comment'', JObj [(''id'', JNum ''0''), (''text'', JStr ''hi'')])])
      two_in_game_123)) = 400
   \<and> snd (post_game_comment_new ''t2''
      (JObj [(''gameId'', JNum ''123''),
             (''comment'', JObj [(''id'', JNum ''0''), (''text'', JStr ''hi'')])])
      two_in_game_123) = two_in_game_123"
  using falsy_field_rejected [of
      "JObj [(''gameId'', JNum ''123''),
             (''comment'', JObj [(''id'', JNum ''0''), (''text'', JStr ''hi'')])]"
      "''t2''" two_in_game_123]
  by simp

section \<open>The message event\<close>



section \<open>Leaving after joining\<close>

lemma finite_members_step:
  "(\<And>r. finite (members s r)) \<Longrightarrow> finite (members (step s e) r)"
proof (cases e)
  case (Connection c addr now)
  assume "\<And>r. finite (members s r)"
  then show ?thesis using Connection by simp
next
  case (Socket c ev)
  assume "\<And>r. finite (members s r)"
  then show ?thesis using Socket by (cases ev) simp_all
next
  case (Http now req)
  assume "\<And>r. finite (members s r)"
  then show ?thesis using Http by simp
qed

lemma finite_members_run: "finite (members (run es) r)"
  by (induction es arbitrary: r rule: rev_induct) (simp_all add: finite_members_step)

lemma room_without_not_empty: "room_without c m \<noteq> Some {}"
  by (simp add: room_without_def split: option.splits)

lemma adapter_on_connection [simp]:
  "adapter_rooms (on_connection c addr now s) = adapter_rooms s"
  by (simp add: on_connection_def Let_def)

lemma adapter_others [simp]:
  "adapter_rooms (on_broadcast_players_updated c gameId s) = adapter_rooms s"
  "adapter_rooms (on_broadcast_comment_new c gameId comment s) = adapter_rooms s"
  "adapter_rooms (on_message c r message s) = adapter_rooms s"
  "adapter_rooms (on_privateMessage c to message s) = adapter_rooms s"
  "adapter_rooms (on_error c err s) = adapter_rooms s"
  by (simp_all add: on_broadcast_players_updated_def
      on_broadcast_comment_new_def on_message_def on_privateMessage_def on_error_def Let_def)

lemma adapter_on_joinRoom:
  "adapter_rooms (on_joinRoom c r s) = (adapter_rooms s)(r \<mapsto> insert c (members s r))"
  by (simp add: on_joinRoom_def Let_def socket_join_def)

lemma adapter_on_register:
  "adapter_rooms (on_register c uid s) =
     (adapter_rooms s)(''user_'' @ template uid \<mapsto> insert c (members s (''user_'' @ template uid)))"
  by (simp add: on_register_def Let_def socket_join_def)

lemma adapter_on_leaveRoom:
  "adapter_rooms (on_leaveRoom c r s) = (adapter_rooms s)(r := room_without c (adapter_rooms s r))"
  by (simp add: on_leaveRoom_def Let_def socket_leave_def)

lemma adapter_socket_disconnect:
  "adapter_rooms (socket_disconnect c reason details s) =
     (\<lambda>r. room_without c (adapter_rooms s r))"
  by (simp add: socket_disconnect_def on_disconnect_def Let_def socket_leaveAll_def)

lemma no_empty_room_step:
  "(\<And>r. adapter_rooms s r \<noteq> Some {}) \<Longrightarrow> adapter_rooms (step s e) r \<noteq> Some {}"
proof (cases e)
  case (Connection c addr now)
  assume "\<And>r. adapter_rooms s r \<noteq> Some {}"
  then show ?thesis using Connection by simp
next
  case (Socket c ev)
  assume "\<And>r. adapter_rooms s r \<noteq> Some {}"
  then show ?thesis using Socket
    by (cases ev)
      (simp_all add: adapter_on_joinRoom adapter_on_register adapter_on_leaveRoom
        adapter_socket_disconnect room_without_not_empty)
next
  case (Http now req)
  assume "\<And>r. adapter_rooms s r \<noteq> Some {}"
  then show ?thesis using Http by simp
qed

lemma no_empty_room_run: "adapter_rooms (run es) r \<noteq> Some {}"
  by (induction es arbitrary: r rule: rev_induct) (simp_all add: no_empty_room_step)

lemma adapter_eq_members:
  assumes "\<And>r. adapter_rooms s r \<noteq> Some {}" "\<And>r. adapter_rooms s' r \<noteq> Some {}"
    and "members s' = members s"
  shows "adapter_rooms s' = adapter_rooms s"
proof
  fix r
  have "members s' r = members s r"
    using assms(3) by simp
  then show "adapter_rooms s' r = adapter_rooms s r"
    using assms(1) [of r] assms(2) [of r]
    by (auto simp: members_def split: option.splits)
qed

text \<open>
  C6, as stated, fails when \<open>c\<close> is already a member of \<open>r\<close>: the join changes
  nothing, the leave removes \<open>c\<close>, and the membership is not the one before the join.
\<close>

theorem leave_after_rejoin_counterexample:
  "''a'' \<in> members (run [Connection ''a'' ''10.0.0.1'' ''t0'', Socket ''a'' (JoinRoom ''r1'')]) ''r1''
   \<and> ''a'' \<notin> members (on_leaveRoom ''a'' ''r1'' (on_joinRoom ''a'' ''r1''
        (run [Connection ''a'' ''10.0.0.1'' ''t0'', Socket ''a'' (JoinRoom ''r1'')]))) ''r1''"
  by (simp add: run_def)

text \<open>
  C6, amended. In a reachable state, for a live connection \<open>c\<close> that is not a member of
  \<open>r\<close>: \<open>leave(c, r)\<close> right after \<open>join(c, r)\<close> gives back the membership before
  the join (index, registry and per-connection sets), and the size of \<open>r\<close> after the
  leave is exactly one less than after the join (a natural number, never negative); and
  \<open>leave(c, r)\<close> alone changes no membership.
\<close>

theorem leave_after_join:
  assumes live: "c \<in> dom (connectedClients (run es))"
    and out: "c \<notin> members (run es) r"
  shows "members (on_leaveRoom c r (on_joinRoom c r (run es))) = members (run es)
       \<and> adapter_rooms (on_leaveRoom c r (on_joinRoom c r (run es))) = adapter_rooms (run es)
       \<and> connectedClients (on_leaveRoom c r (on_joinRoom c r (run es)))
           = connectedClients (run es)
       \<and> getRoomSize (on_joinRoom c r (run es)) r
           = getRoomSize (on_leaveRoom c r (on_joinRoom c r (run es))) r + 1
       \<and> members (on_leaveRoom c r (run es)) = members (run es)
       \<and> adapter_rooms (on_leaveRoom c r (run es)) = adapter_rooms (run es)
       \<and> connectedClients (on_leaveRoom c r (run es)) = connectedClients (run es)"
proof -
  let ?s = "run es"
  obtain ci where ci: "connectedClients ?s c = Some ci"
    using live by auto
  have "r \<notin> client_rooms ?s c"
    using out consistent_client_rooms [OF consistent_run] by simp
  then have nr: "r \<notin> rooms ci"
    using ci by (simp add: client_rooms_def)
  have m1: "members (on_leaveRoom c r (on_joinRoom c r ?s)) = members ?s"
    using out by (auto simp: fun_eq_iff)
  have m2: "members (on_leaveRoom c r ?s) = members ?s"
    using out by (auto simp: fun_eq_iff)
  have ne: "\<And>r'. adapter_rooms ?s r' \<noteq> Some {}"
    by (rule no_empty_room_run)
  have ne1: "\<And>r'. adapter_rooms (on_leaveRoom c r (on_joinRoom c r ?s)) r' \<noteq> Some {}"
    using ne by (simp add: adapter_on_leaveRoom adapter_on_joinRoom room_without_not_empty)
  have ne2: "\<And>r'. adapter_rooms (on_leaveRoom c r ?s) r' \<noteq> Some {}"
    using ne by (simp add: adapter_on_leaveRoom room_without_not_empty)
  have a1: "adapter_rooms (on_leaveRoom c r (on_joinRoom c r ?s)) = adapter_rooms ?s"
    using ne ne1 m1 by (rule adapter_eq_members)
  have a2: "adapter_rooms (on_leaveRoom c r ?s) = adapter_rooms ?s"
    using ne ne2 m2 by (rule adapter_eq_members)
  have same: "ci\<lparr>rooms := insert r (rooms ci) - {r}\<rparr> = ci" "ci\<lparr>rooms := rooms ci - {r}\<rparr> = ci"
    using nr by simp_all
  have c1: "connectedClients (on_leaveRoom c r (on_joinRoom c r ?s)) = connectedClients ?s"
    using ci same by (simp add: on_leaveRoom_def on_joinRoom_def Let_def fun_upd_idem)
  have c2: "connectedClients (on_leaveRoom c r ?s) = connectedClients ?s"
    using ci same by (simp add: on_leaveRoom_def Let_def fun_upd_idem)
  have "card (insert c (members ?s r)) = card (members ?s r) + 1"
    using out finite_members_run [of es r] by simp
  then have sz: "getRoomSize (on_joinRoom c r ?s) r
      = getRoomSize (on_leaveRoom c r (on_joinRoom c r ?s)) r + 1"
    using out by (simp add: getRoomSize_members)
  show ?thesis
    using m1 m2 a1 a2 c1 c2 sz by simp
qed

text \<open>At a concrete input: \<open>b\<close> joins and leaves \<open>game_123\<close>, where \<open>a\<close> is.\<close>

theorem leave_after_join_witness:
  "members (on_leaveRoom ''b'' ''game_123'' (on_joinRoom ''b'' ''game_123''
      (run [Connection ''a'' ''10.0.0.1'' ''t0'', Connection ''b'' ''10.0.0.2'' ''t1'',
            Socket ''a'' (JoinRoom ''game_123'')])))
    = members (run [Connection ''a'' ''10.0.0.1'' ''t0'', Connection ''b'' ''10.0.0.2'' ''t1'',
            Socket ''a'' (JoinRoom ''game_123'')])
   \<and> getRoomSize (on_joinRoom ''b'' ''game_123''
      (run [Connection ''a'' ''10.0.0.1'' ''t0'', Connection ''b'' ''10.0.0.2'' ''t1'',
            Socket ''a'' (JoinRoom ''game_123'')])) ''game_123''
    = getRoomSize (on_leaveRoom ''b'' ''game_123'' (on_joinRoom ''b'' ''game_123''
      (run [Connection ''a'' ''10.0.0.1'' ''t0'', Connection ''b'' ''10.0.0.2'' ''t1'',
            Socket ''a'' (JoinRoom ''game_123'')]))) ''game_123'' + 1"
proof -
  have live: "''b'' \<in> dom (connectedClients
      (run [Connection ''a'' ''10.0.0.1'' ''t0'', Connection ''b'' ''10.0.0.2'' ''t1'',
            Socket ''a'' (JoinRoom ''game_123'')]))"
    by (simp add: run_def)
  have out: "''b'' \<notin> members
      (run [Connection ''a'' ''10.0.0.1'' ''t0'', Connection ''b'' ''10.0.0.2'' ''t1'',
            Socket ''a'' (JoinRoom ''game_123'')]) ''game_123''"
    by (simp add: run_def)
  show ?thesis
    using leave_after_join [OF live out] by blast
qed

section \<open>Disconnect\<close>



lemma delivered_on_connection [simp]:
  "delivered (on_connection c addr now s) = delivered s"
  by (simp add: on_connection_def Let_def)

lemma delivered_socket_disconnect [simp]:
  "delivered (socket_disconnect c reason details s) = delivered s"
  by (simp add: socket_disconnect_def on_disconnect_def Let_def)








end
